theory Spec2Isabelle
  imports Complex_Main "HOL-Library.Multiset"
begin

section \<open>Data model of ch03/algorithms.py\<close>

text \<open>
  The strategy is a set of callbacks that the trading platform invokes with a mutable
  \<open>context\<close> object. The context is modelled as a record that every callback takes and
  returns. Prices, cost bases and percentages are Python floats; they are idealised as
  real numbers (no rounding, no infinities, no NaN). Share amounts, the thresholds and
  the two counters are Python integers.

  Python's \<open>/\<close> raises \<open>ZeroDivisionError\<close> on a zero divisor; the source has no
  \<open>try\<close> block, so a raise leaves the callback.
\<close>

datatype py_error = ZeroDivisionError

text \<open>A position of \<open>context.portfolio.positions\<close>: the fields the strategy reads.\<close>

record position =
  amount :: int
  cost_basis :: real

text \<open>The order requests the strategy sends to the platform.\<close>

datatype 's order =
    Order_target_percent 's int
  | Order_target_value 's int

fun order_security :: "'s order \<Rightarrow> 's" where
  "order_security (Order_target_percent s _) = s"
| "order_security (Order_target_value s _) = s"

text \<open>
  The attributes of \<open>context\<close>. \<open>positions\<close> is \<open>context.portfolio.positions\<close>, a
  dictionary owned by the platform; it is kept as an association list in the
  dictionary's iteration order.
\<close>

record 's algo_context =
  NUM_SYMBOLS :: nat
  TRADE_SIZE :: int
  MIN_PROFIT_PERCENT :: int
  MAX_LOSS_PERCENT :: int
  winners :: int
  losers :: int
  buy :: "'s list"
  sell :: "'s list"
  positions :: "('s \<times> position) list"

text \<open>
  \<open>initialize\<close>: the assignments of lines 20 to 33. Registering the commission model, the
  pipeline and the schedule changes no attribute. \<open>buy\<close> and \<open>sell\<close> are assigned by
  \<open>before_trading_start\<close>, which the platform calls before the first \<open>handle_data\<close>.
\<close>

definition initialize :: "'s algo_context \<Rightarrow> 's algo_context" where
  "initialize c =
     c\<lparr>NUM_SYMBOLS := 10, TRADE_SIZE := 100000,
       MIN_PROFIT_PERCENT := 1, MAX_LOSS_PERCENT := 1,
       winners := 0, losers := 0\<rparr>"

section \<open>The pipeline\<close>

text \<open>
  \<open>make_pipeline\<close> builds a screen (lines 52 to 61) and seven columns (lines 63 to 83)
  that the platform evaluates each day; the screen is \<open>top_mkt_cap_tech_filter\<close> below
  and the columns of one row are \<open>pipeline_row\<close>. An instrument carries the inputs the
  screen reads, as the platform supplies them.
\<close>

record 's instrument =
  sid :: 's
  Q500US :: bool
  Sector :: int
  market_cap :: real

definition tech_universe_filter :: "'s instrument \<Rightarrow> bool" where
  "tech_universe_filter i = (Q500US i \<and> Sector i = 311)"

text \<open>
  Modelled from the spec: the platform's \<open>Factor.top(N, mask)\<close> is not part of the
  repository. Section 4.1 of the specification: rank the masked instruments by the factor,
  descending, and take the top \<open>N\<close>; ties are broken stably by instrument identifier
  (the input list is in identifier order, and \<open>sort_key\<close> is stable). It is named
  \<open>top_filter\<close> because \<open>top\<close> is a constant of HOL.
\<close>

definition top_filter :: "nat \<Rightarrow> ('a \<Rightarrow> bool) \<Rightarrow> ('a \<Rightarrow> real) \<Rightarrow> 'a list \<Rightarrow> 'a list" where
  "top_filter n msk factor xs = take n (sort_key (\<lambda>x. - factor x) (filter msk xs))"

definition top_mkt_cap_tech_filter ::
  "'s algo_context \<Rightarrow> 's instrument list \<Rightarrow> 's instrument list" where
  "top_mkt_cap_tech_filter c xs = top_filter (NUM_SYMBOLS c) tech_universe_filter market_cap xs"

text \<open>
  One row of the pipeline's output, with the seven columns of lines 77 to 83. The
  columns \<open>buy\<close> and \<open>sell\<close> are named \<open>buy_filter\<close> and \<open>sell_filter\<close> after the
  variables that hold them.
\<close>

record pipe_row =
  buy_percent :: real
  lower_band :: real
  buy_filter :: bool
  price :: real
  sell_filter :: bool
  upper_band :: real
  sell_percent :: real

text \<open>
  Lines 67 to 74 for one instrument. The platform evaluates the factor arithmetic on
  floating-point arrays, where a zero price gives an infinity or a NaN rather than a
  raise; that row is outside this model (\<open>None\<close>).
\<close>

definition pipeline_row :: "real \<Rightarrow> real \<Rightarrow> real \<Rightarrow> pipe_row option" where
  "pipeline_row lower_band_factor upper_band_factor p =
     (if p = 0 then None
      else
        let buy_percent_factor = ((lower_band_factor - p) * 100) / p;
            sell_percent_factor = ((p - upper_band_factor) * 100) / p
        in Some \<lparr>buy_percent = buy_percent_factor,
                 lower_band = lower_band_factor,
                 buy_filter = (buy_percent_factor > 0),
                 price = p,
                 sell_filter = (sell_percent_factor > 0),
                 upper_band = upper_band_factor,
                 sell_percent = sell_percent_factor\<rparr>)"

text \<open>
  \<open>before_trading_start\<close>: the pipeline's output is a table indexed by security; the
  two lists are the indices of the rows whose flag is set, in table order.
\<close>

definition before_trading_start ::
  "'s algo_context \<Rightarrow> ('s \<times> pipe_row) list \<Rightarrow> 's algo_context" where
  "before_trading_start c pipe_bbands =
     c\<lparr>buy := map fst (filter (\<lambda>r. buy_filter (snd r)) pipe_bbands),
       sell := map fst (filter (\<lambda>r. sell_filter (snd r)) pipe_bbands)\<rparr>"

section \<open>The risk check\<close>

text \<open>Line 109.\<close>

definition price_diff_percent :: "real \<Rightarrow> real \<Rightarrow> py_error + real" where
  "price_diff_percent current_price cb =
     (if current_price = 0 then Inl ZeroDivisionError
      else Inr (((current_price - cb) * 100) / current_price))"

text \<open>Lines 112 and 113.\<close>

definition profit :: "'s algo_context \<Rightarrow> position \<Rightarrow> real \<Rightarrow> bool" where
  "profit c p pdp =
     ((amount p > 0 \<and> pdp > real_of_int (MIN_PROFIT_PERCENT c)) \<or>
      (amount p < 0 \<and> - pdp > real_of_int (MIN_PROFIT_PERCENT c)))"

text \<open>Lines 116 and 117.\<close>

definition loss :: "'s algo_context \<Rightarrow> position \<Rightarrow> real \<Rightarrow> bool" where
  "loss c p pdp =
     ((amount p > 0 \<and> - pdp > real_of_int (MAX_LOSS_PERCENT c)) \<or>
      (amount p < 0 \<and> pdp > real_of_int (MAX_LOSS_PERCENT c)))"

text \<open>
  The body of the loop of \<open>check_profit_loss\<close> for one entry of the positions
  dictionary, lines 105 to 132. \<open>data\<close> gives \<open>data.current(security, 'price')\<close>. The body
  returns the updated context and the orders it sent, or the error it raised. The log
  line and \<open>record_vars\<close> only report values (the ratio is guarded by
  \<open>if context.losers\<close>) and are left out.
\<close>

definition check_position ::
  "'s algo_context \<Rightarrow> ('s \<Rightarrow> real) \<Rightarrow> 's \<Rightarrow> position \<Rightarrow>
     py_error + ('s algo_context \<times> 's order list)" where
  "check_position c data security p =
     (let current_price = data security in
      case price_diff_percent current_price (cost_basis p) of
        Inl e \<Rightarrow> Inl e
      | Inr pdp \<Rightarrow>
          let pr = profit c p pdp; ls = loss c p pdp in
          if security \<notin> set (buy c) \<and> security \<notin> set (sell c) \<and> (pr \<or> ls)
          then
            Inr ((if pr
                  then c\<lparr>winners := winners c + \<bar>amount p * MIN_PROFIT_PERCENT c\<bar>\<rparr>
                  else c\<lparr>losers := losers c + \<bar>amount p * MAX_LOSS_PERCENT c\<bar>\<rparr>),
                 [Order_target_percent security 0])
          else Inr (c, []))"

text \<open>
  The loop over the dictionary. The context is mutated in place and the orders are sent
  as the loop runs, so when an iteration raises, the updates and orders of the
  iterations before it stay: the result is the error that left the loop (if any), the
  context and the orders sent.
\<close>

type_synonym 's outcome = "py_error option \<times> 's algo_context \<times> 's order list"

fun check_profit_loss_loop ::
  "'s algo_context \<Rightarrow> ('s \<Rightarrow> real) \<Rightarrow> ('s \<times> position) list \<Rightarrow> 's outcome" where
  "check_profit_loss_loop c data [] = (None, c, [])"
| "check_profit_loss_loop c data ((security, p) # ps) =
     (case check_position c data security p of
        Inl e \<Rightarrow> (Some e, c, [])
      | Inr (c', os) \<Rightarrow>
          (case check_profit_loss_loop c' data ps of
             (r, c'', os') \<Rightarrow> (r, c'', os @ os')))"

definition check_profit_loss :: "'s algo_context \<Rightarrow> ('s \<Rightarrow> real) \<Rightarrow> 's outcome" where
  "check_profit_loss c data = check_profit_loss_loop c data (positions c)"

definition handle_data :: "'s algo_context \<Rightarrow> ('s \<Rightarrow> real) \<Rightarrow> 's outcome" where
  "handle_data c data = check_profit_loss c data"

section \<open>Entry orders\<close>

text \<open>
  \<open>generate_entries\<close>, lines 147 to 157: the two loops over \<open>context.buy\<close> and
  \<open>context.sell\<close>. The function assigns no attribute of the context; its result is the
  list of orders it sends, in order. The pipeline output it reads is only logged.
\<close>

fun buy_loop :: "'s algo_context \<Rightarrow> 's list \<Rightarrow> 's order list" where
  "buy_loop c [] = []"
| "buy_loop c (security # ss) =
     (if security \<notin> set (map fst (positions c))
      then Order_target_value security (TRADE_SIZE c) # buy_loop c ss
      else buy_loop c ss)"

fun sell_loop :: "'s algo_context \<Rightarrow> 's list \<Rightarrow> 's order list" where
  "sell_loop c [] = []"
| "sell_loop c (security # ss) =
     (if security \<notin> set (map fst (positions c))
      then Order_target_value security (- TRADE_SIZE c) # sell_loop c ss
      else sell_loop c ss)"

definition generate_entries :: "'s algo_context \<Rightarrow> 's order list" where
  "generate_entries c = buy_loop c (buy c) @ sell_loop c (sell c)"

section \<open>A run of the strategy\<close>

text \<open>
  After \<open>initialize\<close> the platform invokes the callbacks, one at a time. Between two
  invocations it may change \<open>context.portfolio.positions\<close>; each invocation below carries
  the positions it finds. A run stops at the first callback that raises.
\<close>

datatype 's callback =
    Before_trading_start "('s \<times> pipe_row) list"
  | Handle_data "('s \<times> position) list" "'s \<Rightarrow> real"
  | Generate_entries "('s \<times> position) list"

fun invoke :: "'s algo_context \<Rightarrow> 's callback \<Rightarrow> 's outcome" where
  "invoke c (Before_trading_start pipe_bbands) = (None, before_trading_start c pipe_bbands, [])"
| "invoke c (Handle_data ps data) = handle_data (c\<lparr>positions := ps\<rparr>) data"
| "invoke c (Generate_entries ps) =
     (None, c\<lparr>positions := ps\<rparr>, generate_entries (c\<lparr>positions := ps\<rparr>))"

fun run :: "'s algo_context \<Rightarrow> 's callback list \<Rightarrow> 's outcome" where
  "run c [] = (None, c, [])"
| "run c (cb # cbs) =
     (case invoke c cb of
        (Some e, c', os) \<Rightarrow> (Some e, c', os)
      | (None, c', os) \<Rightarrow>
          (case run c' cbs of (r, c'', os') \<Rightarrow> (r, c'', os @ os')))"

section \<open>The per-position decision as the specification words it\<close>

text \<open>
  Section 4.4 of the specification, written out as it stands: \<open>is_long\<close> is
  \<open>amount > 0\<close> and the short branches are guarded by \<open>not is_long\<close>. These definitions
  follow the specification, not the source; they are compared with \<open>check_position\<close>.
\<close>

definition spec_price_diff_percent :: "real \<Rightarrow> real \<Rightarrow> real" where
  "spec_price_diff_percent current_price cb = (current_price - cb) * 100 / current_price"

definition spec_is_long :: "int \<Rightarrow> bool" where
  "spec_is_long a = (a > 0)"

definition spec_profit :: "int \<Rightarrow> int \<Rightarrow> real \<Rightarrow> bool" where
  "spec_profit min_profit a pdp =
     ((spec_is_long a \<and> pdp > real_of_int min_profit) \<or>
      (\<not> spec_is_long a \<and> - pdp > real_of_int min_profit))"

definition spec_loss :: "int \<Rightarrow> int \<Rightarrow> real \<Rightarrow> bool" where
  "spec_loss max_loss a pdp =
     ((spec_is_long a \<and> - pdp > real_of_int max_loss) \<or>
      (\<not> spec_is_long a \<and> pdp > real_of_int max_loss))"

definition spec_flatten :: "'s algo_context \<Rightarrow> ('s \<Rightarrow> real) \<Rightarrow> 's \<Rightarrow> position \<Rightarrow> bool" where
  "spec_flatten c data security p =
     (let pdp = spec_price_diff_percent (data security) (cost_basis p) in
      security \<notin> set (buy c) \<and> security \<notin> set (sell c) \<and>
      (spec_profit (MIN_PROFIT_PERCENT c) (amount p) pdp \<or>
       spec_loss (MAX_LOSS_PERCENT c) (amount p) pdp))"

section \<open>Example inputs\<close>

text \<open>
  A context as \<open>initialize\<close> leaves it, with empty signal lists and no position; securities
  are numbered. \<open>quote\<close> is a price table: the price of security 1 is zero, every other
  security trades at 102.
\<close>

definition started :: "nat algo_context" where
  "started =
     initialize \<lparr>NUM_SYMBOLS = 0, TRADE_SIZE = 0, MIN_PROFIT_PERCENT = 0,
       MAX_LOSS_PERCENT = 0, winners = 0, losers = 0, buy = [], sell = [], positions = []\<rparr>"

definition long50 :: position where
  "long50 = \<lparr>amount = 50, cost_basis = 100\<rparr>"

definition flat0 :: position where
  "flat0 = \<lparr>amount = 0, cost_basis = 100\<rparr>"

definition quote :: "nat \<Rightarrow> real" where
  "quote security = (if security = 1 then 0 else 102)"

definition dear20 :: position where
  "dear20 = \<lparr>amount = 20, cost_basis = 110\<rparr>"

text \<open>A row whose bands are crossed (the lower band above the upper band).\<close>

definition crossed_row :: pipe_row where
  "crossed_row =
     \<lparr>buy_percent = 10, lower_band = 110, buy_filter = True, price = 100,
      sell_filter = True, upper_band = 90, sell_percent = 10\<rparr>"

text \<open>Five instruments, in identifier order; three of them pass the sector filter.\<close>

definition listing :: "nat instrument list" where
  "listing =
     [\<lparr>sid = 1, Q500US = True, Sector = 311, market_cap = 5\<rparr>,
      \<lparr>sid = 2, Q500US = True, Sector = 311, market_cap = 9\<rparr>,
      \<lparr>sid = 3, Q500US = True, Sector = 206, market_cap = 20\<rparr>,
      \<lparr>sid = 4, Q500US = False, Sector = 311, market_cap = 30\<rparr>,
      \<lparr>sid = 5, Q500US = True, Sector = 311, market_cap = 7\<rparr>]"

section \<open>Properties of the risk check\<close>

text \<open>The loop body, with the division written out.\<close>

lemma check_position_cases:
  "check_position c data s p =
     (if data s = 0 then Inl ZeroDivisionError
      else let pdp = ((data s - cost_basis p) * 100) / data s in
        if s \<notin> set (buy c) \<and> s \<notin> set (sell c) \<and> (profit c p pdp \<or> loss c p pdp)
        then Inr ((if profit c p pdp
                  then c\<lparr>winners := winners c + \<bar>amount p * MIN_PROFIT_PERCENT c\<bar>\<rparr>
                  else c\<lparr>losers := losers c + \<bar>amount p * MAX_LOSS_PERCENT c\<bar>\<rparr>),
                 [Order_target_percent s 0])
        else Inr (c, []))"
  by (simp add: check_position_def price_diff_percent_def Let_def)

text \<open>
  Claim C9. A position whose amount is exactly zero is never flattened: both \<open>profit\<close>
  and \<open>loss\<close> are false whatever the price difference, so the loop body sends no order
  and returns the context unchanged (or raises at the division when the price is zero,
  which changes nothing either).
\<close>

theorem zero_amount_never_flattened:
  "amount p = 0 \<Longrightarrow>
     \<not> profit c p pdp \<and> \<not> loss c p pdp \<and>
     check_position c data s p = (if data s = 0 then Inl ZeroDivisionError else Inr (c, []))"
  by (simp add: check_position_cases profit_def loss_def Let_def)

theorem zero_amount_never_flattened_witness:
  "amount flat0 = 0 \<and> \<not> profit started flat0 (-2) \<and> \<not> loss started flat0 (-2) \<and>
   check_position started quote 2 flat0 = Inr (started, []) \<and>
   check_position started quote 1 flat0 = Inl ZeroDivisionError"
  using zero_amount_never_flattened [of flat0 started "-2" quote 2]
    zero_amount_never_flattened [of flat0 started "-2" quote 1]
  by (simp add: flat0_def quote_def)

text \<open>
  Claim C1, as stated, fails at a position whose amount is zero: the specification's
  \<open>not is_long\<close> branch treats it as a short position and flattens it; the source guards
  the short branches with \<open>position.amount < 0\<close> and leaves it alone. Security 2 trades
  at 102, the position has amount 0 and cost basis 100.
\<close>

theorem flatten_decision_counterexample:
  "check_position started quote 2 flat0 = Inr (started, []) \<and>
   spec_flatten started quote 2 flat0"
  by (simp add: quote_def check_position_cases profit_def loss_def flat0_def started_def initialize_def
      spec_flatten_def spec_profit_def spec_loss_def spec_is_long_def spec_price_diff_percent_def)


text \<open>
  Claim C1, amended. For a position whose amount is not zero and whose current price is
  not zero, the source computes the specification's formula: the same percentage, the
  same \<open>profit\<close> and \<open>loss\<close>, and the loop body sends the flatten order exactly when the
  specification's \<open>flatten\<close> holds. The short branches cover the amounts below zero.
\<close>

theorem flatten_decision_follows_spec:
  assumes "amount p \<noteq> 0" and "data s \<noteq> 0"
  shows "price_diff_percent (data s) (cost_basis p) =
           Inr (spec_price_diff_percent (data s) (cost_basis p)) \<and>
         profit c p pdp = spec_profit (MIN_PROFIT_PERCENT c) (amount p) pdp \<and>
         loss c p pdp = spec_loss (MAX_LOSS_PERCENT c) (amount p) pdp \<and>
         (\<exists>c'. check_position c data s p =
            Inr (c', if spec_flatten c data s p then [Order_target_percent s 0] else []))"
proof -
  have sign: "\<not> spec_is_long (amount p) \<longleftrightarrow> amount p < 0"
    using assms(1) by (auto simp: spec_is_long_def)
  have pr: "profit c p x = spec_profit (MIN_PROFIT_PERCENT c) (amount p) x" for x
    unfolding profit_def spec_profit_def sign by (simp add: spec_is_long_def)
  have ls: "loss c p x = spec_loss (MAX_LOSS_PERCENT c) (amount p) x" for x
    unfolding loss_def spec_loss_def sign by (simp add: spec_is_long_def)
  have pd: "price_diff_percent (data s) (cost_basis p) =
           Inr (spec_price_diff_percent (data s) (cost_basis p))"
    using assms(2) by (simp add: price_diff_percent_def spec_price_diff_percent_def)
  have "\<exists>c'. check_position c data s p =
            Inr (c', if spec_flatten c data s p then [Order_target_percent s 0] else [])"
    using assms(2)
    by (simp add: check_position_cases Let_def spec_flatten_def pr ls spec_price_diff_percent_def)
  with pr ls pd show ?thesis by blast
qed

theorem flatten_decision_follows_spec_witness:
  "amount long50 \<noteq> 0 \<and> quote 2 \<noteq> 0 \<and> spec_flatten started quote 2 long50 \<and>
   profit started long50 (100 / 51) \<and>
   spec_profit (MIN_PROFIT_PERCENT started) (amount long50) (100 / 51) \<and>
   (\<exists>c'. check_position started quote 2 long50 = Inr (c', [Order_target_percent 2 0]))"
proof -
  have h: "amount long50 \<noteq> 0" "quote 2 \<noteq> 0"
    by (simp_all add: long50_def quote_def)
  have f: "spec_flatten started quote 2 long50"
    by (simp add: quote_def long50_def started_def initialize_def spec_flatten_def
        spec_profit_def spec_loss_def spec_is_long_def spec_price_diff_percent_def)
  have p: "profit started long50 (100 / 51)"
    by (simp add: long50_def started_def initialize_def profit_def)
  from h f p
    flatten_decision_follows_spec [where p = long50 and data = quote and s = 2
      and c = started and pdp = "100 / 51"]
  show ?thesis by simp
qed

lemma profit_loss_exclusive:
  "0 \<le> MIN_PROFIT_PERCENT c \<Longrightarrow> 0 \<le> MAX_LOSS_PERCENT c \<Longrightarrow> profit c p pdp \<Longrightarrow> \<not> loss c p pdp"
  by (auto simp: profit_def loss_def)


text \<open>
  Claim C3. When the loop body flattens a position (the security is in neither list and
  the division returns), it sends \<open>order_target_percent(security, 0)\<close>, a target of zero
  for the position, and adds to \<open>winners\<close> the absolute amount times
  \<open>MIN_PROFIT_PERCENT\<close> on a profit exit, or to \<open>losers\<close> the absolute amount times
  \<open>MAX_LOSS_PERCENT\<close> on a loss exit: the threshold, not the realised percentage. The
  thresholds are percentages, not negative (both are 1 in \<open>initialize\<close>). In the
  scenario (cost basis 100, price 102, amount 50, threshold 1) the percentage lies
  between 1.96 and 1.97, \<open>profit\<close> holds and \<open>winners\<close> grows by 50.
\<close>

theorem flatten_effect:
  assumes "s \<notin> set (buy c)" and "s \<notin> set (sell c)"
    and "0 \<le> MIN_PROFIT_PERCENT c" and "0 \<le> MAX_LOSS_PERCENT c"
    and "price_diff_percent (data s) (cost_basis p) = Inr pdp"
  shows "(profit c p pdp \<longrightarrow>
            check_position c data s p =
              Inr (c\<lparr>winners := winners c + \<bar>amount p\<bar> * MIN_PROFIT_PERCENT c\<rparr>,
                   [Order_target_percent s 0])) \<and>
         (loss c p pdp \<longrightarrow>
            check_position c data s p =
              Inr (c\<lparr>losers := losers c + \<bar>amount p\<bar> * MAX_LOSS_PERCENT c\<rparr>,
                   [Order_target_percent s 0])) \<and>
         (MIN_PROFIT_PERCENT c = 1 \<and> cost_basis p = 100 \<and> data s = 102 \<and> amount p = 50 \<longrightarrow>
            196 / 100 < pdp \<and> pdp < 197 / 100 \<and> profit c p pdp \<and>
            check_position c data s p =
              Inr (c\<lparr>winners := winners c + 50\<rparr>, [Order_target_percent s 0]))"
proof -
  have cp: "check_position c data s p =
      (if profit c p pdp \<or> loss c p pdp
       then Inr ((if profit c p pdp
                  then c\<lparr>winners := winners c + \<bar>amount p * MIN_PROFIT_PERCENT c\<bar>\<rparr>
                  else c\<lparr>losers := losers c + \<bar>amount p * MAX_LOSS_PERCENT c\<bar>\<rparr>),
                 [Order_target_percent s 0])
       else Inr (c, []))"
    using assms(1,2,5) by (simp add: check_position_def Let_def)
  have w: "\<bar>amount p * MIN_PROFIT_PERCENT c\<bar> = \<bar>amount p\<bar> * MIN_PROFIT_PERCENT c"
    using assms(3) by (simp add: abs_mult)
  have l: "\<bar>amount p * MAX_LOSS_PERCENT c\<bar> = \<bar>amount p\<bar> * MAX_LOSS_PERCENT c"
    using assms(4) by (simp add: abs_mult)
  have A: "profit c p pdp \<longrightarrow>
            check_position c data s p =
              Inr (c\<lparr>winners := winners c + \<bar>amount p\<bar> * MIN_PROFIT_PERCENT c\<rparr>,
                   [Order_target_percent s 0])"
    by (simp add: cp w)
  have B: "loss c p pdp \<longrightarrow>
            check_position c data s p =
              Inr (c\<lparr>losers := losers c + \<bar>amount p\<bar> * MAX_LOSS_PERCENT c\<rparr>,
                   [Order_target_percent s 0])"
    using profit_loss_exclusive [OF assms(3,4), of p pdp] by (auto simp: cp l)
  have C: "196 / 100 < pdp \<and> pdp < 197 / 100 \<and> profit c p pdp \<and>
            check_position c data s p =
              Inr (c\<lparr>winners := winners c + 50\<rparr>, [Order_target_percent s 0])"
    if h: "MIN_PROFIT_PERCENT c = 1 \<and> cost_basis p = 100 \<and> data s = 102 \<and> amount p = 50"
  proof -
    from assms(5) h have pdp: "pdp = 200 / 102"
      by (simp add: price_diff_percent_def)
    have pr: "profit c p pdp" using h by (simp add: profit_def pdp)
    show ?thesis using A pr h by (simp add: pdp)
  qed
  from A B C show ?thesis by blast
qed

theorem flatten_effect_witness:
  "2 \<notin> set (buy started) \<and> 2 \<notin> set (sell started) \<and>
   0 \<le> MIN_PROFIT_PERCENT started \<and> 0 \<le> MAX_LOSS_PERCENT started \<and>
   price_diff_percent (quote 2) (cost_basis long50) = Inr (100 / 51) \<and>
   profit started long50 (100 / 51) \<and>
   check_position started quote 2 long50 =
     Inr (started\<lparr>winners := 50\<rparr>, [Order_target_percent 2 0])"
proof -
  have h: "2 \<notin> set (buy started)" "2 \<notin> set (sell started)"
    "0 \<le> MIN_PROFIT_PERCENT started" "0 \<le> MAX_LOSS_PERCENT started"
    "price_diff_percent (quote 2) (cost_basis long50) = Inr (100 / 51)"
    by (simp_all add: started_def initialize_def quote_def long50_def price_diff_percent_def)
  have v: "MIN_PROFIT_PERCENT started = 1 \<and> cost_basis long50 = 100 \<and> quote 2 = 102 \<and>
      amount long50 = 50" "winners started = 0"
    by (simp_all add: started_def initialize_def quote_def long50_def)
  show ?thesis
    using h v flatten_effect [where s = 2 and c = started and data = quote and p = long50
        and pdp = "100 / 51"]
    by simp
qed

lemma check_position_lists:
  "check_position c data s p = Inr (c', os) \<Longrightarrow> buy c' = buy c \<and> sell c' = sell c"
  by (auto simp: check_position_cases Let_def split: if_splits)

lemma check_position_orders:
  "check_position c data s p = Inr (c', os) \<Longrightarrow> o' \<in> set os \<Longrightarrow>
     order_security o' = s \<and> s \<notin> set (buy c) \<and> s \<notin> set (sell c)"
  by (auto simp: check_position_cases Let_def split: if_splits)








lemma loop_lists:
  "check_profit_loss_loop c data ps = (r, c', os) \<Longrightarrow> buy c' = buy c \<and> sell c' = sell c"
proof (induction ps arbitrary: c r c' os)
  case Nil
  then show ?case by simp
next
  case (Cons q ps)
  obtain s p where q: "q = (s, p)" by (cases q)
  show ?case
  proof (cases "check_position c data s p")
    case (Inl e)
    with Cons.prems show ?thesis by (simp add: q)
  next
    case (Inr x)
    obtain c1 os1 where x: "x = (c1, os1)" by (cases x)
    obtain r2 c2 os2 where l: "check_profit_loss_loop c1 data ps = (r2, c2, os2)"
      by (cases "check_profit_loss_loop c1 data ps") auto
    from Cons.prems Inr x l have "c' = c2" by (simp add: q)
    with Cons.IH [OF l] check_position_lists [OF Inr [unfolded x]] show ?thesis by simp
  qed
qed

lemma loop_orders:
  "check_profit_loss_loop c data ps = (r, c', os) \<Longrightarrow> o' \<in> set os \<Longrightarrow>
     order_security o' \<notin> set (buy c) \<and> order_security o' \<notin> set (sell c)"
proof (induction ps arbitrary: c r c' os)
  case Nil
  then show ?case by simp
next
  case (Cons q ps)
  obtain s p where q: "q = (s, p)" by (cases q)
  show ?case
  proof (cases "check_position c data s p")
    case (Inl e)
    with Cons.prems show ?thesis by (simp add: q)
  next
    case (Inr x)
    obtain c1 os1 where x: "x = (c1, os1)" by (cases x)
    obtain r2 c2 os2 where l: "check_profit_loss_loop c1 data ps = (r2, c2, os2)"
      by (cases "check_profit_loss_loop c1 data ps") auto
    from Cons.prems(1) Inr x l have os: "os = os1 @ os2" by (simp add: q)
    note cp = Inr [unfolded x]
    from Cons.prems(2) os consider "o' \<in> set os1" | "o' \<in> set os2" by auto
    then show ?thesis
    proof cases
      case 1
      with check_position_orders [OF cp] show ?thesis by blast
    next
      case 2
      with Cons.IH [OF l] check_position_lists [OF cp] show ?thesis by simp
    qed
  qed
qed

lemma loop_remove_listed:
  "s \<in> set (buy c) \<or> s \<in> set (sell c) \<Longrightarrow>
   check_profit_loss_loop c data ps = (None, c', os) \<Longrightarrow>
   check_profit_loss_loop c data (filter (\<lambda>q. fst q \<noteq> s) ps) = (None, c', os)"
proof (induction ps arbitrary: c c' os)
  case Nil
  then show ?case by simp
next
  case (Cons q ps)
  obtain t p where q: "q = (t, p)" by (cases q)
  from Cons.prems(2) obtain c1 os1 where cp: "check_position c data t p = Inr (c1, os1)"
    by (cases "check_position c data t p") (auto simp: q)
  obtain r2 c2 os2 where l: "check_profit_loss_loop c1 data ps = (r2, c2, os2)"
    by (cases "check_profit_loss_loop c1 data ps") auto
  from Cons.prems(2) cp l have e: "r2 = None" "c' = c2" "os = os1 @ os2" by (simp_all add: q)
  from Cons.prems(1) check_position_lists [OF cp]
  have listed: "s \<in> set (buy c1) \<or> s \<in> set (sell c1)" by simp
  note ih = Cons.IH [OF listed l [unfolded e(1)]]
  show ?case
  proof (cases "t = s")
    case True
    with cp Cons.prems(1) have "c1 = c" "os1 = []"
      by (auto simp: check_position_cases Let_def split: if_splits)
    with ih e True show ?thesis by (simp add: q)
  next
    case False
    with ih e cp show ?thesis by (simp add: q)
  qed
qed

text \<open>
  Claim C4. A security in \<open>context.buy\<close> or \<open>context.sell\<close> is never flattened: the loop
  body for it sends no order and leaves the context, so both counters, unchanged (or
  raises at a zero price); no order of a whole risk check names it; and a risk check that
  returns gives the same context and the same orders with the security's position
  removed from the portfolio.
\<close>

theorem listed_never_flattened:
  assumes "s \<in> set (buy c) \<or> s \<in> set (sell c)"
  shows "check_position c data s p =
           (if data s = 0 then Inl ZeroDivisionError else Inr (c, [])) \<and>
         (\<forall>o' \<in> set (snd (snd (check_profit_loss c data))). order_security o' \<noteq> s) \<and>
         (check_profit_loss_loop c data ps = (None, c', os) \<longrightarrow>
            check_profit_loss_loop c data (filter (\<lambda>q. fst q \<noteq> s) ps) = (None, c', os))"
proof -
  have A: "check_position c data s p =
           (if data s = 0 then Inl ZeroDivisionError else Inr (c, []))"
    using assms by (auto simp: check_position_cases Let_def)
  have B: "\<forall>o' \<in> set (snd (snd (check_profit_loss c data))). order_security o' \<noteq> s"
  proof
    fix o' assume o: "o' \<in> set (snd (snd (check_profit_loss c data)))"
    obtain r c2 os2 where l: "check_profit_loss_loop c data (positions c) = (r, c2, os2)"
      by (cases "check_profit_loss_loop c data (positions c)") auto
    with o have "o' \<in> set os2" by (simp add: check_profit_loss_def)
    from loop_orders [OF l this] assms show "order_security o' \<noteq> s" by auto
  qed
  from A B loop_remove_listed [OF assms] show ?thesis by blast
qed

theorem listed_never_flattened_witness:
  "(2 \<in> set (buy (started\<lparr>buy := [2]\<rparr>)) \<or> 2 \<in> set (sell (started\<lparr>buy := [2]\<rparr>))) \<and>
   check_position (started\<lparr>buy := [2]\<rparr>) quote 2 long50 = Inr (started\<lparr>buy := [2]\<rparr>, []) \<and>
   check_profit_loss_loop (started\<lparr>buy := [2]\<rparr>) quote [(2, long50), (3, long50)] =
     (None, started\<lparr>buy := [2], winners := 50\<rparr>, [Order_target_percent 3 0]) \<and>
   check_profit_loss_loop (started\<lparr>buy := [2]\<rparr>) quote [(3, long50)] =
     (None, started\<lparr>buy := [2], winners := 50\<rparr>, [Order_target_percent 3 0])"
proof -
  have h: "2 \<in> set (buy (started\<lparr>buy := [2]\<rparr>)) \<or> 2 \<in> set (sell (started\<lparr>buy := [2]\<rparr>))"
    by simp
  have l: "check_profit_loss_loop (started\<lparr>buy := [2]\<rparr>) quote [(2, long50), (3, long50)] =
     (None, started\<lparr>buy := [2], winners := 50\<rparr>, [Order_target_percent 3 0])"
    by (simp add: quote_def check_position_cases profit_def loss_def long50_def started_def
      initialize_def)
  show ?thesis
    using h l listed_never_flattened [OF h, of quote long50 "[(2, long50), (3, long50)]"
        "started\<lparr>buy := [2], winners := 50\<rparr>" "[Order_target_percent 3 0]"]
    by (simp add: quote_def)
qed

lemma check_position_counters:
  "check_position c data s p = Inr (c', os) \<Longrightarrow>
     winners c \<le> winners c' \<and> losers c \<le> losers c'"
  by (auto simp: check_position_cases Let_def split: if_splits)

lemma loop_counters:
  "winners c \<le> winners (fst (snd (check_profit_loss_loop c data ps))) \<and>
   losers c \<le> losers (fst (snd (check_profit_loss_loop c data ps)))"
proof (induction ps arbitrary: c)
  case Nil
  show ?case by simp
next
  case (Cons q ps)
  obtain s p where q: "q = (s, p)" by (cases q)
  show ?case
  proof (cases "check_position c data s p")
    case (Inl e)
    then show ?thesis by (simp add: q)
  next
    case (Inr x)
    obtain c1 os1 where x: "x = (c1, os1)" by (cases x)
    obtain r2 c2 os2 where l: "check_profit_loss_loop c1 data ps = (r2, c2, os2)"
      by (cases "check_profit_loss_loop c1 data ps") auto
    from check_position_counters [OF Inr [unfolded x]] Cons.IH [of c1] l
    show ?thesis using Inr x by (simp add: q)
  qed
qed

lemma invoke_counters:
  "winners c \<le> winners (fst (snd (invoke c cb))) \<and>
   losers c \<le> losers (fst (snd (invoke c cb)))"
proof (cases cb)
  case (Before_trading_start pipe_bbands)
  then show ?thesis by (simp add: before_trading_start_def)
next
  case (Handle_data ps data)
  with loop_counters [of "c\<lparr>positions := ps\<rparr>" data ps] show ?thesis
    by (simp add: handle_data_def check_profit_loss_def)
next
  case (Generate_entries ps)
  then show ?thesis by simp
qed

lemma run_counters:
  "winners c \<le> winners (fst (snd (run c cbs))) \<and>
   losers c \<le> losers (fst (snd (run c cbs)))"
proof (induction cbs arbitrary: c)
  case Nil
  show ?case by simp
next
  case (Cons cb cbs)
  obtain r1 c1 os1 where i: "invoke c cb = (r1, c1, os1)"
    by (cases "invoke c cb") auto
  obtain r2 c2 os2 where l: "run c1 cbs = (r2, c2, os2)"
    by (cases "run c1 cbs") auto
  from invoke_counters [of c cb] Cons.IH [of c1] i l
  show ?case by (cases r1) simp_all
qed

text \<open>
  Claim C7. \<open>initialize\<close> sets both counters to zero, and no callback lowers either of
  them: over one risk check and over any sequence of callbacks from any context,
  \<open>winners\<close> and \<open>losers\<close> at the end are at least what they were at the start, also when
  the sequence ends in a raise. The only assignments to the counters add an absolute
  value.
\<close>

theorem counters_monotone:
  "winners (initialize c0) = 0 \<and> losers (initialize c0) = 0 \<and>
   winners c \<le> winners (fst (snd (check_profit_loss c data))) \<and>
   losers c \<le> losers (fst (snd (check_profit_loss c data))) \<and>
   winners c \<le> winners (fst (snd (run c cbs))) \<and>
   losers c \<le> losers (fst (snd (run c cbs)))"
  using run_counters [of c cbs] loop_counters [of c data "positions c"]
  by (simp add: initialize_def check_profit_loss_def)



theorem counters_monotone_witness:
  "winners (initialize started) = 0 \<and> losers (initialize started) = 0 \<and>
   winners started \<le> 100 \<and> losers started \<le> 20 \<and>
   run started
     [Before_trading_start [], Handle_data [(2, long50)] quote, Generate_entries [],
      Handle_data [(2, long50), (3, dear20)] quote] =
     (None, started\<lparr>positions := [(2, long50), (3, dear20)], winners := 100, losers := 20\<rparr>,
      [Order_target_percent 2 0, Order_target_percent 2 0, Order_target_percent 3 0])"
proof -
  let ?cbs = "[Before_trading_start [], Handle_data [(2, long50)] quote, Generate_entries [],
      Handle_data [(2, long50), (3, dear20)] quote]"
  have r: "run started ?cbs =
     (None, started\<lparr>positions := [(2, long50), (3, dear20)], winners := 100, losers := 20\<rparr>,
      [Order_target_percent 2 0, Order_target_percent 2 0, Order_target_percent 3 0])"
    by (simp add: handle_data_def check_profit_loss_def before_trading_start_def
        generate_entries_def check_position_cases profit_def loss_def quote_def long50_def
        dear20_def started_def initialize_def)
  from counters_monotone [of started started quote ?cbs] r show ?thesis
    by simp
qed

section \<open>Properties of the pipeline and of the entry orders\<close>

text \<open>
  Claim C6. For a row with a positive price, \<open>buy_percent\<close> is
  \<open>(lower_band - price) * 100 / price\<close> and \<open>sell_percent\<close> is
  \<open>(price - upper_band) * 100 / price\<close>; the buy flag holds iff \<open>buy_percent > 0\<close> iff
  the price is below the lower band, the sell flag holds iff \<open>sell_percent > 0\<close> iff the
  price is above the upper band, and with \<open>lower_band < upper_band\<close> the two flags are
  never both set.
\<close>

theorem pipeline_row_flags:
  assumes "0 < p"
  shows "\<exists>r. pipeline_row lower upper p = Some r \<and>
           buy_percent r = (lower - p) * 100 / p \<and>
           sell_percent r = (p - upper) * 100 / p \<and>
           (buy_filter r \<longleftrightarrow> buy_percent r > 0) \<and> (buy_percent r > 0 \<longleftrightarrow> p < lower) \<and>
           (sell_filter r \<longleftrightarrow> sell_percent r > 0) \<and> (sell_percent r > 0 \<longleftrightarrow> p > upper) \<and>
           (lower < upper \<longrightarrow> \<not> (buy_filter r \<and> sell_filter r))"
  using assms by (auto simp: pipeline_row_def Let_def zero_less_divide_iff)

theorem pipeline_row_flags_witness:
  "(0::real) < 95 \<and>
   (\<exists>r. pipeline_row 100 110 95 = Some r \<and> buy_percent r = 100 / 19 \<and>
      buy_filter r \<and> \<not> sell_filter r)"
  using pipeline_row_flags [of 95 100 110] by auto

lemma buy_loop_map:
  "buy_loop c ss =
     map (\<lambda>s. Order_target_value s (TRADE_SIZE c))
       (filter (\<lambda>s. s \<notin> set (map fst (positions c))) ss)"
  by (induction ss) simp_all

lemma sell_loop_map:
  "sell_loop c ss =
     map (\<lambda>s. Order_target_value s (- TRADE_SIZE c))
       (filter (\<lambda>s. s \<notin> set (map fst (positions c))) ss)"
  by (induction ss) simp_all

lemma entries_securities:
  "order_security ` set (generate_entries c) =
     {s \<in> set (buy c) \<union> set (sell c). s \<notin> set (map fst (positions c))}"
  by (simp add: generate_entries_def buy_loop_map sell_loop_map image_Un image_image) blast

text \<open>
  Claim C5. A security that holds a position gets no entry order, whichever list it is
  in. So a second run of \<open>generate_entries\<close> with the same lists, after every security
  ordered by the first run (and every security held before) holds a position, sends no
  order at all. The function assigns nothing in the context.
\<close>

theorem no_entry_for_held_security:
  assumes "s \<in> set (map fst (positions c))"
  shows "(\<forall>o' \<in> set (generate_entries c). order_security o' \<noteq> s) \<and>
         (buy c2 = buy c1 \<and> sell c2 = sell c1 \<and>
          set (map fst (positions c1)) \<union> order_security ` set (generate_entries c1)
            \<subseteq> set (map fst (positions c2))
          \<longrightarrow> generate_entries c2 = [])"
proof -
  have A: "\<forall>o' \<in> set (generate_entries c). order_security o' \<noteq> s"
    using assms entries_securities [of c] by blast
  have B: "generate_entries c2 = []"
    if h: "buy c2 = buy c1 \<and> sell c2 = sell c1 \<and>
          set (map fst (positions c1)) \<union> order_security ` set (generate_entries c1)
            \<subseteq> set (map fst (positions c2))"
  proof -
    have "t \<in> set (map fst (positions c2))" if "t \<in> set (buy c1) \<union> set (sell c1)" for t
    proof (cases "t \<in> set (map fst (positions c1))")
      case True
      with h show ?thesis by blast
    next
      case False
      with that have "t \<in> order_security ` set (generate_entries c1)"
        unfolding entries_securities by blast
      with h show ?thesis by blast
    qed
    with h have "order_security ` set (generate_entries c2) = {}"
      unfolding entries_securities by auto
    then show ?thesis by simp
  qed
  from A B show ?thesis by blast
qed

theorem no_entry_for_held_security_witness:
  "generate_entries (started\<lparr>buy := [1, 2], sell := [3]\<rparr>) =
     [Order_target_value 1 100000, Order_target_value 2 100000,
      Order_target_value 3 (- 100000)] \<and>
   generate_entries
     (started\<lparr>buy := [1, 2], sell := [3],
        positions := [(1, long50), (2, long50), (3, long50)]\<rparr>) = []"
proof -
  let ?c1 = "started\<lparr>buy := [1, 2], sell := [3]\<rparr>"
  let ?c2 = "started\<lparr>buy := [1, 2], sell := [3],
        positions := [(1, long50), (2, long50), (3, long50)]\<rparr>"
  have e: "generate_entries ?c1 =
     [Order_target_value 1 100000, Order_target_value 2 100000,
      Order_target_value 3 (- 100000)]"
    by (simp add: generate_entries_def started_def initialize_def)
  have h: "1 \<in> set (map fst (positions ?c2))" by simp
  have p: "positions ?c1 = []" by (simp add: started_def initialize_def)
  from no_entry_for_held_security [OF h, of ?c2 ?c1] e
  show ?thesis by (simp add: started_def initialize_def)
qed

lemma filter_eq_distinct:
  "distinct xs \<Longrightarrow> s \<in> set xs \<Longrightarrow> filter (\<lambda>x. x = s) xs = [s]"
  by (induction xs) (auto simp: filter_empty_conv)

lemma before_trading_start_distinct:
  "distinct (map fst pipe_bbands) \<Longrightarrow>
     distinct (buy (before_trading_start c pipe_bbands)) \<and>
     distinct (sell (before_trading_start c pipe_bbands))"
  by (simp add: before_trading_start_def distinct_map_filter)

text \<open>
  Claim C10. The lists come from \<open>before_trading_start\<close> on a table indexed by security,
  so neither repeats a security. A security in both lists that holds no position gets
  exactly two orders, in this order: the target value \<open>TRADE_SIZE\<close> from the buy loop,
  then the target value \<open>- TRADE_SIZE\<close> from the sell loop, which is the last target
  requested for it.
\<close>

theorem both_lists_two_orders:
  assumes "distinct (map fst pipe_bbands)"
    and "buy c = buy (before_trading_start c0 pipe_bbands)"
    and "sell c = sell (before_trading_start c0 pipe_bbands)"
    and "s \<in> set (buy c)" and "s \<in> set (sell c)"
    and "s \<notin> set (map fst (positions c))"
  shows "filter (\<lambda>o'. order_security o' = s) (generate_entries c) =
           [Order_target_value s (TRADE_SIZE c), Order_target_value s (- TRADE_SIZE c)] \<and>
         last (filter (\<lambda>o'. order_security o' = s) (generate_entries c)) =
           Order_target_value s (- TRADE_SIZE c)"
proof -
  from assms(1-3) before_trading_start_distinct [of pipe_bbands c0]
  have d: "distinct (buy c)" "distinct (sell c)" by simp_all
  have f: "(x = s \<and> x \<notin> fst ` set (positions c)) = (x = s)" for x
    using assms(6) by auto
  have b: "filter (\<lambda>o'. order_security o' = s) (buy_loop c (buy c)) =
      [Order_target_value s (TRADE_SIZE c)]"
    using filter_eq_distinct [OF d(1) assms(4)]
    by (simp add: buy_loop_map filter_map comp_def f conj_commute)
  have sl: "filter (\<lambda>o'. order_security o' = s) (sell_loop c (sell c)) =
      [Order_target_value s (- TRADE_SIZE c)]"
    using filter_eq_distinct [OF d(2) assms(5)]
    by (simp add: sell_loop_map filter_map comp_def f conj_commute)
  show ?thesis by (simp add: generate_entries_def b sl)
qed

theorem both_lists_two_orders_witness:
  "pipeline_row 110 90 100 = Some crossed_row \<and>
   distinct (map fst [(1::nat, crossed_row)]) \<and>
   1 \<in> set (buy (before_trading_start started [(1, crossed_row)])) \<and>
   1 \<in> set (sell (before_trading_start started [(1, crossed_row)])) \<and>
   1 \<notin> set (map fst (positions (before_trading_start started [(1, crossed_row)]))) \<and>
   filter (\<lambda>o'. order_security o' = 1)
     (generate_entries (before_trading_start started [(1, crossed_row)])) =
     [Order_target_value 1 100000, Order_target_value 1 (- 100000)]"
proof -
  let ?c = "before_trading_start started [(1::nat, crossed_row)]"
  have r: "pipeline_row 110 90 100 = Some crossed_row"
    by (simp add: pipeline_row_def crossed_row_def)
  have h: "distinct (map fst [(1::nat, crossed_row)])"
    "buy ?c = buy (before_trading_start started [(1, crossed_row)])"
    "sell ?c = sell (before_trading_start started [(1, crossed_row)])"
    "1 \<in> set (buy ?c)" "1 \<in> set (sell ?c)" "1 \<notin> set (map fst (positions ?c))"
    by (simp_all add: before_trading_start_def crossed_row_def started_def initialize_def)
  have t: "TRADE_SIZE ?c = 100000"
    by (simp add: before_trading_start_def started_def initialize_def)
  from both_lists_two_orders [OF h] r h(1,4,5,6) show ?thesis
    by (simp only: t) simp
qed

section \<open>Properties of the universe filter\<close>

lemma sorted_prefix_count:
  assumes "sorted (map k ys)" and "m < length ys"
  shows "length (filter (\<lambda>x. k x < k (ys ! m)) ys) \<le> m"
proof -
  have "\<not> k x < k (ys ! m)" if "x \<in> set (drop m ys)" for x
  proof -
    from that obtain j where j: "j < length ys - m" "x = ys ! (m + j)"
      by (auto simp: in_set_conv_nth)
    with assms have "map k ys ! m \<le> map k ys ! (m + j)"
      by (intro sorted_nth_mono) simp_all
    with j assms(2) show ?thesis by simp
  qed
  then have "filter (\<lambda>x. k x < k (ys ! m)) (drop m ys) = []"
    by (simp add: filter_empty_conv)
  moreover have "filter (\<lambda>x. k x < k (ys ! m)) ys =
      filter (\<lambda>x. k x < k (ys ! m)) (take m ys) @ filter (\<lambda>x. k x < k (ys ! m)) (drop m ys)"
    by (metis append_take_drop_id filter_append)
  ultimately have "filter (\<lambda>x. k x < k (ys ! m)) ys =
      filter (\<lambda>x. k x < k (ys ! m)) (take m ys)"
    by simp
  then have "length (filter (\<lambda>x. k x < k (ys ! m)) ys) \<le> length (take m ys)"
    by (metis length_filter_le)
  then show ?thesis by simp
qed

lemma top_filter_rank:
  assumes "i \<in> set (top_filter n msk factor xs)"
  shows "length (filter (\<lambda>j. factor i < factor j) (filter msk xs)) < n"
proof -
  let ?k = "\<lambda>x. - factor x"
  let ?ys = "sort_key ?k (filter msk xs)"
  from assms obtain m where m: "m < n" "m < length ?ys" "i = ?ys ! m"
    by (auto simp: top_filter_def in_set_conv_nth)
  have "length (filter (\<lambda>j. factor i < factor j) (filter msk xs)) =
      length (filter (\<lambda>j. factor i < factor j) ?ys)"
    by (simp add: filter_sort)
  also have "\<dots> = length (filter (\<lambda>x. ?k x < ?k (?ys ! m)) ?ys)"
    by (simp add: m(3))
  also have "\<dots> \<le> m"
    by (rule sorted_prefix_count [OF sorted_sort_key m(2)])
  finally show ?thesis using m(1) by simp
qed

text \<open>
  Claim C8. The screen of the pipeline holds at most \<open>NUM_SYMBOLS\<close> instruments; each of
  them is in the base universe with sector code 311, and fewer than \<open>NUM_SYMBOLS\<close>
  sector members have a larger market capitalisation; when at most \<open>NUM_SYMBOLS\<close>
  instruments pass the sector filter, the screen holds all of them. The function is
  total: there is no error.
\<close>

theorem universe_snapshot:
  "length (top_mkt_cap_tech_filter c xs) \<le> NUM_SYMBOLS c \<and>
   (\<forall>i \<in> set (top_mkt_cap_tech_filter c xs).
      i \<in> set xs \<and> Q500US i \<and> Sector i = 311 \<and>
      length (filter (\<lambda>j. market_cap i < market_cap j) (filter tech_universe_filter xs))
        < NUM_SYMBOLS c) \<and>
   (length (filter tech_universe_filter xs) \<le> NUM_SYMBOLS c \<longrightarrow>
      mset (top_mkt_cap_tech_filter c xs) = mset (filter tech_universe_filter xs))"
proof -
  have A: "length (top_mkt_cap_tech_filter c xs) \<le> NUM_SYMBOLS c"
    by (simp add: top_mkt_cap_tech_filter_def top_filter_def)
  have B: "i \<in> set xs \<and> Q500US i \<and> Sector i = 311 \<and>
      length (filter (\<lambda>j. market_cap i < market_cap j) (filter tech_universe_filter xs))
        < NUM_SYMBOLS c" if i: "i \<in> set (top_mkt_cap_tech_filter c xs)" for i
  proof -
    from i have "i \<in> set (sort_key (\<lambda>x. - market_cap x) (filter tech_universe_filter xs))"
      unfolding top_mkt_cap_tech_filter_def top_filter_def by (rule in_set_takeD)
    then have "i \<in> set xs \<and> tech_universe_filter i" by simp
    with top_filter_rank [OF i [unfolded top_mkt_cap_tech_filter_def]]
    show ?thesis by (simp add: tech_universe_filter_def)
  qed
  have C: "mset (top_mkt_cap_tech_filter c xs) = mset (filter tech_universe_filter xs)"
    if "length (filter tech_universe_filter xs) \<le> NUM_SYMBOLS c"
    using that by (simp add: top_mkt_cap_tech_filter_def top_filter_def)
  from A B C show ?thesis by blast
qed

theorem universe_snapshot_witness:
  "top_mkt_cap_tech_filter (started\<lparr>NUM_SYMBOLS := 2\<rparr>) listing =
     [\<lparr>sid = 2, Q500US = True, Sector = 311, market_cap = 9\<rparr>,
      \<lparr>sid = 5, Q500US = True, Sector = 311, market_cap = 7\<rparr>] \<and>
   length (top_mkt_cap_tech_filter (started\<lparr>NUM_SYMBOLS := 2\<rparr>) listing) \<le> 2 \<and>
   length (filter tech_universe_filter listing) \<le> NUM_SYMBOLS started \<and>
   mset (top_mkt_cap_tech_filter started listing) = mset (filter tech_universe_filter listing)"
proof -
  have e: "top_mkt_cap_tech_filter (started\<lparr>NUM_SYMBOLS := 2\<rparr>) listing =
     [\<lparr>sid = 2, Q500US = True, Sector = 311, market_cap = 9\<rparr>,
      \<lparr>sid = 5, Q500US = True, Sector = 311, market_cap = 7\<rparr>]"
    by (simp add: top_mkt_cap_tech_filter_def top_filter_def tech_universe_filter_def
        listing_def)
  have n: "length (filter tech_universe_filter listing) \<le> NUM_SYMBOLS started"
    by (simp add: tech_universe_filter_def listing_def started_def initialize_def)
  from universe_snapshot [of "started\<lparr>NUM_SYMBOLS := 2\<rparr>" listing]
  have a: "length (top_mkt_cap_tech_filter (started\<lparr>NUM_SYMBOLS := 2\<rparr>) listing) \<le> 2"
    by simp
  from universe_snapshot [of started listing] n
  have b: "mset (top_mkt_cap_tech_filter started listing) =
      mset (filter tech_universe_filter listing)"
    by blast
  from e a n b show ?thesis by blast
qed

end
